theory Spec2Isabelle
  imports Complex_Main "HOL-Library.AList"
begin

section \<open>Data model (types.ts)\<close>

text \<open>
  A TypeScript \<open>number\<close> is modelled as a real; NaN and the infinities are left out.
  The tick is computed in exact arithmetic, except for the collision block, which takes
  the rounding of each arithmetic result as a parameter: the identity gives exact
  arithmetic, \<open>binary64\<close> below gives the doubles of the source. Record fields carry a
  prefix where the source's one-letter names (\<open>x\<close>, \<open>y\<close>, \<open>id\<close>) would clash with
  variables or HOL constants.
\<close>

type_synonym number = real

record Platform =
  plat_id :: string
  plat_x :: number
  plat_y :: number
  plat_width :: number
  plat_height :: number

record PlayerState =
  player_x :: number
  player_y :: number
  player_vx :: number
  player_vy :: number
  isGrounded :: bool
  isDead :: bool
  controlsReversed :: bool
  reverseTimer :: number

datatype GameStatus = IDLE | PLAYING | WON | LOST

record GameState =
  isPlaying :: bool
  gameStatus :: GameStatus
  level :: "Platform list"
  player :: PlayerState
  revives :: number
  timeElapsed :: number
  levelLength :: number

datatype TrapType = BOMB | CRACK | REVERSE

datatype Role = RUNNER | TRAPPER

datatype MessageType =
  PING | JOIN_LOBBY | ACK_JOIN | CHAT_MSG | START_GAME | STATE_UPDATE | TRAP_TRIGGER
  | SIGNAL_OFFER | SIGNAL_ANSWER | SIGNAL_ICE

definition GRAVITY :: number where "GRAVITY = 0.6"
definition JUMP_FORCE :: number where "JUMP_FORCE = - 12"
definition MOVE_SPEED :: number where "MOVE_SPEED = 5"
definition MAX_FALL_SPEED :: number where "MAX_FALL_SPEED = 15"
definition LEVEL_LENGTH :: number where "LEVEL_LENGTH = 4000"

text \<open>Values of JavaScript's \<open>any\<close> as far as JSON produces them.\<close>

datatype js_value =
  JNull | JBool bool | JNum number | JStr string
  | JArr "js_value list" | JObj "(string \<times> js_value) list"

text \<open>The exceptions the modelled code can raise.\<close>

datatype js_error = TypeError | SyntaxError | ServiceError | NoDataReturned

section \<open>Arithmetic of doubles\<close>

text \<open>Rounding to the nearest integer, a tie going to the even one.\<close>

definition round_half_even :: "real \<Rightarrow> int" where
  "round_half_even r =
     (let f = \<lfloor>r\<rfloor> in
      if r - of_int f < 1 / 2 then f
      else if r - of_int f > 1 / 2 then f + 1
      else if even f then f else f + 1)"

text \<open>
  The double nearest to a real, as IEEE 754 binary64 rounds the exact result of an
  addition or subtraction: 53 significant bits, ties to even, the exponent of the least
  bit not below \<open>-1074\<close>. Overflow to infinity is not modelled.
\<close>

definition binary64 :: "real \<Rightarrow> real" where
  "binary64 x =
     (if x = 0 then 0
      else let e = max \<lfloor>log 2 \<bar>x\<bar>\<rfloor> (- 1022) - 52
           in of_int (round_half_even (x / 2 powr of_int e)) * 2 powr of_int e)"

section \<open>Session start (App.tsx)\<close>

definition INITIAL_GAME_STATE :: GameState where
  "INITIAL_GAME_STATE =
     \<lparr> isPlaying = False, gameStatus = IDLE, level = [],
       player = \<lparr> player_x = 100, player_y = 300, player_vx = 0, player_vy = 0,
                  isGrounded = False, isDead = False, controlsReversed = False,
                  reverseTimer = 0 \<rparr>,
       revives = 3, timeElapsed = 0, levelLength = LEVEL_LENGTH \<rparr>"

text \<open>The state \<open>initiateGame\<close> installs for the level the generator returned.\<close>

definition newGame :: "Platform list \<Rightarrow> GameState" where
  "newGame generatedLevel =
     INITIAL_GAME_STATE \<lparr> isPlaying := True, gameStatus := PLAYING, level := generatedLevel \<rparr>"

section \<open>Trap intents (App.tsx, handleTrapTrigger)\<close>

text \<open>
  \<open>rnd\<close> is the value \<open>Math.random()\<close> returns in the bomb branch. The result is the new
  content of \<open>stateRef.current\<close>; the early return leaves the reference untouched.
\<close>

definition handleTrapTrigger :: "number \<Rightarrow> TrapType \<Rightarrow> GameState \<Rightarrow> GameState" where
  "handleTrapTrigger rnd trapType currentState =
     (if gameStatus currentState \<noteq> PLAYING then currentState
      else
        let p = player currentState in
        (case trapType of
           BOMB \<Rightarrow>
             currentState \<lparr> player :=
               p \<lparr> player_vx := (if rnd > 0.5 then 12 else - 12),
                   player_vy := - 12,
                   isGrounded := False \<rparr> \<rparr>
         | CRACK \<Rightarrow>
             (case find (\<lambda>plat.
                      player_x p + 20 > plat_x plat \<and>
                      player_x p + 10 < plat_x plat + plat_width plat \<and>
                      player_y p + 50 \<ge> plat_y plat \<and>
                      player_y p + 50 \<le> plat_y plat + 10) (level currentState) of
                Some platformUnder \<Rightarrow>
                  currentState \<lparr> level :=
                      filter (\<lambda>pl. plat_id pl \<noteq> plat_id platformUnder) (level currentState),
                    player := p \<rparr>
              | None \<Rightarrow> currentState \<lparr> player := p \<rparr>)
         | REVERSE \<Rightarrow>
             currentState \<lparr> player :=
               p \<lparr> controlsReversed := True, reverseTimer := 3000 \<rparr> \<rparr>))"

section \<open>Simulation tick (App.tsx, updatePhysics)\<close>

text \<open>The direction read from the pressed keys, before any reversal.\<close>

definition moveDirOf :: "string set \<Rightarrow> number" where
  "moveDirOf keysPressed =
     (if ''ArrowLeft'' \<in> keysPressed then - 1 else 0) +
     (if ''ArrowRight'' \<in> keysPressed then 1 else 0)"

text \<open>
  The controls block: the resolved direction, and the player copy with the reversal
  countdown advanced and the flag cleared once the countdown is used up.
\<close>

definition applyControls :: "number \<Rightarrow> string set \<Rightarrow> PlayerState \<Rightarrow> number \<times> PlayerState" where
  "applyControls dt keysPressed p =
     (if controlsReversed p then
        (let t = reverseTimer p - dt in
         (moveDirOf keysPressed * (- 1),
          p \<lparr> reverseTimer := t, controlsReversed := (if t \<le> 0 then False else True) \<rparr>))
      else (moveDirOf keysPressed, p))"

text \<open>
  The loop over \<open>state.level\<close> with its \<open>break\<close>: the loop variables are
  \<open>(nextY, vy, isGrounded)\<close>; \<open>nextX\<close> and the start height \<open>y\<close> are fixed. \<open>rnd\<close>
  rounds the result of each addition and subtraction.
\<close>

fun collision_loop ::
  "(number \<Rightarrow> number) \<Rightarrow> number \<Rightarrow> number \<Rightarrow> Platform list \<Rightarrow>
     number \<times> number \<times> bool \<Rightarrow> number \<times> number \<times> bool" where
  "collision_loop rnd nextX y [] vars = vars"
| "collision_loop rnd nextX y (plat # rest) (nextY, vy, grounded) =
     (if rnd (nextX + 30) > plat_x plat \<and> nextX < rnd (plat_x plat + plat_width plat) \<and>
         rnd (y + 48) \<le> plat_y plat \<and> rnd (nextY + 48) \<ge> plat_y plat
      then (rnd (plat_y plat - 48), 0, True)
      else collision_loop rnd nextX y rest (nextY, vy, grounded))"

text \<open>
  The tentative height \<open>nextY = y + vy\<close> and the collision block: the loop runs only
  while descending (\<open>vy \<ge> 0\<close>).
\<close>

definition resolveCollision ::
  "(number \<Rightarrow> number) \<Rightarrow> Platform list \<Rightarrow> number \<Rightarrow> number \<Rightarrow> number \<Rightarrow>
     number \<times> number \<times> bool" where
  "resolveCollision rnd lvl nextX y vy =
     (if vy \<ge> 0 then collision_loop rnd nextX y lvl (rnd (y + vy), vy, False)
      else (rnd (y + vy), vy, False))"

text \<open>
  The player copy as it stands when the win/loss checks begin: controls, jump, gravity,
  tentative position, collision, and the five assignments to the copy, in exact
  arithmetic.
\<close>

definition integrate :: "number \<Rightarrow> string set \<Rightarrow> GameState \<Rightarrow> PlayerState" where
  "integrate dt keysPressed state =
     (let p0 = player state;
          (moveDir, p1) = applyControls dt keysPressed p0;
          vx = moveDir * MOVE_SPEED;
          vy0 = (if ''Space'' \<in> keysPressed \<and> isGrounded p0 then JUMP_FORCE else player_vy p0);
          vy1 = min (vy0 + GRAVITY) MAX_FALL_SPEED;
          nextX = player_x p0 + vx;
          (nextY, vy, grounded) =
            resolveCollision (\<lambda>r. r) (level state) nextX (player_y p0) vy1
      in p1 \<lparr> player_x := nextX, player_y := nextY, player_vx := vx, player_vy := vy,
              isGrounded := grounded \<rparr>)"

text \<open>
  The respawn target. \<open>Array.prototype.sort\<close> is stable and the comparator
  \<open>b.x - a.x\<close> orders by descending \<open>x\<close>, which is the stable insertion sort on the key
  \<open>- x\<close>. Element 0 of an empty array is \<open>undefined\<close>, which \<open>||\<close> replaces by
  \<open>state.level[0]\<close>; that is \<open>undefined\<close> again (here \<open>None\<close>) when the level is empty.
\<close>

definition safePlat :: "Platform list \<Rightarrow> number \<Rightarrow> Platform option" where
  "safePlat lvl px =
     (case sort_key (\<lambda>p. - plat_x p) (filter (\<lambda>p. plat_x p < px \<and> plat_x p > 0) lvl) of
        q # _ \<Rightarrow> Some q
      | [] \<Rightarrow> (case lvl of q # _ \<Rightarrow> Some q | [] \<Rightarrow> None))"

text \<open>
  One tick. \<open>Inr\<close> carries the new content of \<open>stateRef.current\<close>; \<open>Inl TypeError\<close> is the
  exception raised by reading \<open>safePlat.x\<close> of \<open>undefined\<close>, which leaves the reference as
  it was.
\<close>

definition updatePhysics :: "number \<Rightarrow> string set \<Rightarrow> GameState \<Rightarrow> js_error + GameState" where
  "updatePhysics dt keysPressed state =
     (let pl = integrate dt keysPressed state in
      if player_x pl \<ge> levelLength state then
        Inr (state \<lparr> player := pl, gameStatus := WON, isPlaying := False \<rparr>)
      else if player_y pl > 800 then
        (if revives state > 0 then
           (case safePlat (level state) (player_x pl) of
              None \<Rightarrow> Inl TypeError
            | Some sp \<Rightarrow>
                Inr (state \<lparr> player :=
                         pl \<lparr> player_x := plat_x sp, player_y := plat_y sp - 60,
                              player_vx := 0, player_vy := 0 \<rparr>,
                       revives := revives state - 1 \<rparr>))
         else Inr (state \<lparr> player := pl, gameStatus := LOST, isPlaying := False \<rparr>))
      else Inr (state \<lparr> player := pl, timeElapsed := timeElapsed state + dt / 1000 \<rparr>))"

text \<open>The tick reaches the death check (the win check did not fire) with \<open>y > 800\<close>.\<close>

definition fallsPastThreshold :: "number \<Rightarrow> string set \<Rightarrow> GameState \<Rightarrow> bool" where
  "fallsPastThreshold dt keysPressed state =
     (player_x (integrate dt keysPressed state) < levelLength state \<and>
      player_y (integrate dt keysPressed state) > 800)"

section \<open>Frame loop (App.tsx, gameLoop)\<close>

text \<open>
  The elapsed time of a frame: \<open>lastTimeRef.current\<close> is replaced by the frame time when it
  is still falsy (0), and the difference is clamped from above by 50.
\<close>

definition deltaTime :: "number \<Rightarrow> number \<Rightarrow> number" where
  "deltaTime time lastTime = min (time - (if lastTime = 0 then time else lastTime)) 50"

text \<open>
  One frame on the pair \<open>(lastTimeRef.current, stateRef.current)\<close>. The result carries the
  new pair and whether the next frame was requested. The snapshot sent to the peer and
  the React state are copies of the new state and are not modelled separately. An
  exception of the tick leaves the callback before the next frame is requested.
\<close>

definition gameLoop ::
  "number \<Rightarrow> string set \<Rightarrow> number \<times> GameState \<Rightarrow> js_error + (number \<times> GameState \<times> bool)" where
  "gameLoop time keysPressed refs =
     (case updatePhysics (deltaTime time (fst refs)) keysPressed (snd refs) of
        Inl e \<Rightarrow> Inl e
      | Inr state' \<Rightarrow> Inr (time, state', gameStatus state' = PLAYING))"

text \<open>
  The frames the browser delivers, each with its time and the keys held then; the loop
  goes on only while a next frame was requested.
\<close>

fun runLoop ::
  "(number \<times> string set) list \<Rightarrow> number \<times> GameState \<Rightarrow> js_error + (number \<times> GameState)" where
  "runLoop [] refs = Inr refs"
| "runLoop ((time, keysPressed) # frames) refs =
     (case gameLoop time keysPressed refs of
        Inl e \<Rightarrow> Inl e
      | Inr (lastTime', state', again) \<Rightarrow>
          if again then runLoop frames (lastTime', state') else Inr (lastTime', state'))"

section \<open>Negotiated peer transport (services/p2p.ts, UDPNetwork.send)\<close>

record NetworkMessage =
  msg_type :: MessageType
  payload :: "js_value option"
  msg_role :: "Role option"
  target :: "Role option"

datatype RTCDataChannelState = Connecting | Open | Closing | Closed

text \<open>
  A data channel as far as \<open>send\<close> touches it: its ready state and the texts handed to
  it for the remote peer, oldest first.
\<close>

record RTCDataChannel =
  readyState :: RTCDataChannelState
  sent :: "string list"

text \<open>A line written by \<open>console.warn\<close>: the fixed text and the message type.\<close>

datatype diagnostic = Warn string MessageType

record UDPNetwork =
  dataChannel :: "RTCDataChannel option"
  console :: "diagnostic list"

text \<open>
  \<open>stringify\<close> stands for \<open>JSON.stringify\<close>, which can raise. The optional chaining
  \<open>this.dataChannel?.readyState\<close> gives \<open>undefined\<close> for a missing channel, which is not
  \<open>'open'\<close>.
\<close>

definition send ::
  "(NetworkMessage \<Rightarrow> js_error + string) \<Rightarrow> NetworkMessage \<Rightarrow> UDPNetwork \<Rightarrow> js_error + UDPNetwork" where
  "send stringify msg net =
     (case dataChannel net of
        Some ch \<Rightarrow>
          if readyState ch = Open then
            (case stringify msg of
               Inl e \<Rightarrow> Inl e
             | Inr txt \<Rightarrow> Inr (net \<lparr> dataChannel := Some (ch \<lparr> sent := sent ch @ [txt] \<rparr>) \<rparr>))
          else
            Inr (net \<lparr> console := console net @
              [Warn ''[UDP_NET] UDP Channel not ready, dropping packet:'' (msg_type msg)] \<rparr>)
      | None \<Rightarrow>
          Inr (net \<lparr> console := console net @
            [Warn ''[UDP_NET] UDP Channel not ready, dropping packet:'' (msg_type msg)] \<rparr>))"

section \<open>Level generation (services/geminiService, generateLevel)\<close>

text \<open>Decimal digits of an array index, as the template literal prints it.\<close>

fun show_nat :: "nat \<Rightarrow> string" where
  "show_nat n =
     (if n < 10 then [''0123456789'' ! n]
      else show_nat (n div 10) @ [''0123456789'' ! (n mod 10)])"

text \<open>
  Object spread \<open>{...p}\<close>: the own enumerable properties of \<open>p\<close>. An array and a string
  spread their elements under their indices; \<open>null\<close>, booleans and numbers have none.
\<close>

fun spread :: "js_value \<Rightarrow> (string \<times> js_value) list" where
  "spread (JObj props) = props"
| "spread (JArr elems) = zip (map show_nat [0..<length elems]) elems"
| "spread (JStr text) = zip (map show_nat [0..<length text]) (map (\<lambda>c. JStr [c]) text)"
| "spread _ = []"

text \<open>The callback of \<open>data.map\<close>: \<open>{ ...p, id: `plat-${index}` }\<close>.\<close>

definition withId :: "js_value \<Rightarrow> nat \<Rightarrow> (string \<times> js_value) list" where
  "withId p index = AList.update ''id'' (JStr (''plat-'' @ show_nat index)) (spread p)"

definition fallbackLevel :: "(string \<times> js_value) list list" where
  "fallbackLevel =
     [ [(''id'', JStr ''start''), (''x'', JNum 50), (''y'', JNum 400), (''width'', JNum 400), (''height'', JNum 40)],
       [(''id'', JStr ''1''), (''x'', JNum 500), (''y'', JNum 350), (''width'', JNum 150), (''height'', JNum 30)],
       [(''id'', JStr ''2''), (''x'', JNum 700), (''y'', JNum 450), (''width'', JNum 150), (''height'', JNum 30)],
       [(''id'', JStr ''3''), (''x'', JNum 900), (''y'', JNum 300), (''width'', JNum 100), (''height'', JNum 30)],
       [(''id'', JStr ''4''), (''x'', JNum 1100), (''y'', JNum 400), (''width'', JNum 200), (''height'', JNum 30)],
       [(''id'', JStr ''5''), (''x'', JNum 1400), (''y'', JNum 350), (''width'', JNum 100), (''height'', JNum 30)],
       [(''id'', JStr ''6''), (''x'', JNum 1600), (''y'', JNum 250), (''width'', JNum 150), (''height'', JNum 30)],
       [(''id'', JStr ''7''), (''x'', JNum 1900), (''y'', JNum 400), (''width'', JNum 300), (''height'', JNum 30)],
       [(''id'', JStr ''8''), (''x'', JNum 2300), (''y'', JNum 350), (''width'', JNum 100), (''height'', JNum 30)],
       [(''id'', JStr ''9''), (''x'', JNum 2500), (''y'', JNum 250), (''width'', JNum 100), (''height'', JNum 30)],
       [(''id'', JStr ''10''), (''x'', JNum 2700), (''y'', JNum 350), (''width'', JNum 150), (''height'', JNum 30)],
       [(''id'', JStr ''11''), (''x'', JNum 3000), (''y'', JNum 400), (''width'', JNum 200), (''height'', JNum 30)],
       [(''id'', JStr ''12''), (''x'', JNum 3300), (''y'', JNum 300), (''width'', JNum 150), (''height'', JNum 30)],
       [(''id'', JStr ''13''), (''x'', JNum 3600), (''y'', JNum 400), (''width'', JNum 400), (''height'', JNum 30)] ]"

text \<open>
  The body of the \<open>try\<close> block. \<open>service\<close> is how the awaited \<open>generateContent\<close> call ended:
  \<open>Inl\<close> for a rejection, \<open>Inr\<close> with \<open>response.text\<close> (\<open>None\<close> when undefined).
  \<open>parse\<close> stands for \<open>JSON.parse\<close>, \<open>None\<close> being its SyntaxError. A value other
  than an array has no callable \<open>map\<close>, so the call raises a TypeError.
\<close>

definition tryGenerate ::
  "(string \<rightharpoonup> js_value) \<Rightarrow> js_error + string option \<Rightarrow> js_error + (string \<times> js_value) list list" where
  "tryGenerate parse service =
     (case service of
        Inl e \<Rightarrow> Inl e
      | Inr text \<Rightarrow>
          (case text of
             None \<Rightarrow> Inl NoDataReturned
           | Some t \<Rightarrow>
               if t \<noteq> [] then
                 (case parse t of
                    None \<Rightarrow> Inl SyntaxError
                  | Some data \<Rightarrow>
                      (case data of
                         JArr elems \<Rightarrow> Inr (map2 withId elems [0..<length elems])
                       | _ \<Rightarrow> Inl TypeError))
               else Inl NoDataReturned))"

text \<open>The whole function: the \<open>catch\<close> clause logs and returns the fallback literal.\<close>

definition generateLevel ::
  "(string \<rightharpoonup> js_value) \<Rightarrow> js_error + string option \<Rightarrow> js_error + (string \<times> js_value) list list" where
  "generateLevel parse service =
     (case tryGenerate parse service of
        Inl e \<Rightarrow> Inr fallbackLevel
      | Inr platforms \<Rightarrow> Inr platforms)"

section \<open>Worked inputs\<close>

text \<open>
  A running session on the level \<open>lvl\<close> as \<open>initiateGame\<close> starts it (three revives, no
  time elapsed, level length 4000), met with the player at \<open>(px, py)\<close> and the vertical
  velocity \<open>pvy\<close>. The examples below run the code on such states.
\<close>

definition scenario :: "Platform list \<Rightarrow> number \<Rightarrow> number \<Rightarrow> number \<Rightarrow> GameState" where
  "scenario lvl px py pvy =
     (newGame lvl) \<lparr> player :=
        (player (newGame lvl)) \<lparr> player_x := px, player_y := py, player_vy := pvy \<rparr> \<rparr>"

text \<open>Levels for the examples: a floor at \<open>x = 0\<close> listed first, and listed last.\<close>

definition levelFloorFirst :: "Platform list" where
  "levelFloorFirst =
     [\<lparr>plat_id = ''floor'', plat_x = 0, plat_y = 500, plat_width = 400, plat_height = 40\<rparr>,
      \<lparr>plat_id = ''a'', plat_x = 50, plat_y = 400, plat_width = 400, plat_height = 40\<rparr>,
      \<lparr>plat_id = ''b'', plat_x = 500, plat_y = 350, plat_width = 150, plat_height = 30\<rparr>]"

definition levelFloorLast :: "Platform list" where
  "levelFloorLast =
     [\<lparr>plat_id = ''b'', plat_x = 500, plat_y = 350, plat_width = 150, plat_height = 30\<rparr>,
      \<lparr>plat_id = ''floor'', plat_x = 0, plat_y = 500, plat_width = 400, plat_height = 40\<rparr>]"

text \<open>
  A step up: the lower platform on the left is listed first, the higher one begins ten
  units to its right, so a player 30 wide standing at \<open>x = 100\<close> is over both.
\<close>

definition levelStep :: "Platform list" where
  "levelStep =
     [\<lparr>plat_id = ''low'', plat_x = 0, plat_y = 510, plat_width = 110, plat_height = 20\<rparr>,
      \<lparr>plat_id = ''high'', plat_x = 120, plat_y = 505, plat_width = 280, plat_height = 20\<rparr>]"

text \<open>A single platform below the death threshold, so that a respawn falls again at once.\<close>

definition levelDeep :: "Platform list" where
  "levelDeep =
     [\<lparr>plat_id = ''deep'', plat_x = 50, plat_y = 900, plat_width = 100, plat_height = 20\<rparr>]"

lemmas tick_defs =
  updatePhysics_def integrate_def applyControls_def moveDirOf_def resolveCollision_def
  safePlat_def fallsPastThreshold_def scenario_def newGame_def INITIAL_GAME_STATE_def
  GRAVITY_def JUMP_FORCE_def MOVE_SPEED_def MAX_FALL_SPEED_def LEVEL_LENGTH_def Let_def

lemmas level_defs = levelFloorFirst_def levelFloorLast_def levelStep_def levelDeep_def

section \<open>The respawn target\<close>

lemma find_of_filter_Cons: "filter P xs = q # r \<Longrightarrow> find P xs = Some q"
  by (induction xs) (auto split: if_splits)

lemma find_filter_implied: "(\<And>z. P z \<Longrightarrow> C z) \<Longrightarrow> find P (filter C xs) = find P xs"
  by (induction xs) auto

text \<open>
  The head of a stably sorted list has the least key, and is the first element of the
  unsorted list with that key.
\<close>

lemma sort_key_head:
  assumes "sort_key f xs = q # r"
  shows "q \<in> set xs \<and> (\<forall>z\<in>set xs. f q \<le> f z) \<and> find (\<lambda>z. f z = f q) xs = Some q"
proof -
  have mem: "set (q # r) = set xs" using assms by (metis set_sort)
  have "sorted (map f (q # r))" using assms by (metis sorted_sort_key)
  then have le: "\<forall>z\<in>set (q # r). f q \<le> f z" by auto
  have "filter (\<lambda>z. f z = f q) xs = filter (\<lambda>z. f z = f q) (q # r)"
    using assms sort_key_stable [of f "f q" xs] by simp
  then have "filter (\<lambda>z. f z = f q) xs = q # filter (\<lambda>z. f z = f q) r" by simp
  then have "find (\<lambda>z. f z = f q) xs = Some q" by (rule find_of_filter_Cons)
  with mem le show ?thesis by auto
qed

lemma safePlat_nonempty: "lvl \<noteq> [] \<Longrightarrow> \<exists>sp. safePlat lvl px = Some sp"
  by (cases lvl) (auto simp: safePlat_def split: list.splits)

lemma safePlat_empty: "safePlat [] px = None"
  by (simp add: safePlat_def)

lemma safePlat_fallback:
  assumes "\<not> (\<exists>q\<in>set lvl. 0 < plat_x q \<and> plat_x q < px)" and "safePlat lvl px = Some sp"
  shows "sp = hd lvl"
proof -
  have "filter (\<lambda>p. plat_x p < px \<and> plat_x p > 0) lvl = []"
    using assms(1) by (auto simp: filter_empty_conv)
  with assms(2) show ?thesis by (cases lvl) (auto simp: safePlat_def)
qed

lemma safePlat_preceding:
  assumes "\<exists>q\<in>set lvl. 0 < plat_x q \<and> plat_x q < px" and "safePlat lvl px = Some sp"
  shows "sp \<in> set lvl \<and> 0 < plat_x sp \<and> plat_x sp < px \<and>
         (\<forall>q\<in>set lvl. 0 < plat_x q \<and> plat_x q < px \<longrightarrow> plat_x q \<le> plat_x sp) \<and>
         find (\<lambda>q. plat_x q = plat_x sp) lvl = Some sp"
proof -
  let ?C = "\<lambda>p. plat_x p < px \<and> plat_x p > 0"
  let ?cands = "filter ?C lvl"
  have ne: "?cands \<noteq> []" using assms(1) by (auto simp: filter_empty_conv)
  then have "sort_key (\<lambda>p. - plat_x p) ?cands \<noteq> []"
    by (metis length_sort length_0_conv)
  then obtain q r where qr: "sort_key (\<lambda>p. - plat_x p) ?cands = q # r"
    by (cases "sort_key (\<lambda>p. - plat_x p) ?cands") auto
  with assms(2) have sp: "sp = q" by (simp add: safePlat_def)
  from sort_key_head [OF qr] have
    mem: "q \<in> set ?cands" and
    le: "\<forall>z\<in>set ?cands. - plat_x q \<le> - plat_x z" and
    fst: "find (\<lambda>z. - plat_x z = - plat_x q) ?cands = Some q" by auto
  have C: "?C q" using mem by simp
  have "find (\<lambda>z. plat_x z = plat_x q) ?cands = Some q" using fst by simp
  moreover have "find (\<lambda>z. plat_x z = plat_x q) ?cands = find (\<lambda>z. plat_x z = plat_x q) lvl"
    by (rule find_filter_implied) (use C in auto)
  ultimately have "find (\<lambda>z. plat_x z = plat_x q) lvl = Some q" by simp
  with mem le C sp show ?thesis by auto
qed

section \<open>Respawn after a fall\<close>

text \<open>
  C1 (amended). When a tick of a state with revives left does not reach the level length,
  ends with \<open>y > 800\<close>, and the level is not empty, the tick succeeds, takes one revive,
  resets the velocity to zero and puts the player at \<open>(sp.x, sp.y - 60)\<close> for a platform
  \<open>sp\<close> of the level: if some platform has \<open>0 < x < player x\<close>, \<open>sp\<close> has the greatest
  such \<open>x\<close> and is the first platform listed with that \<open>x\<close>; otherwise \<open>sp\<close> is the
  first platform of the level. A platform at \<open>x \<le> 0\<close> never counts as preceding.
\<close>

theorem respawn_target:
  assumes "revives s > 0"
    and "player_x (integrate dt keys s) < levelLength s"
    and "player_y (integrate dt keys s) > 800"
    and "level s \<noteq> []"
  shows "\<exists>sp.
      updatePhysics dt keys s =
        Inr (s \<lparr> player :=
                 (integrate dt keys s) \<lparr> player_x := plat_x sp, player_y := plat_y sp - 60,
                                          player_vx := 0, player_vy := 0 \<rparr>,
               revives := revives s - 1 \<rparr>) \<and>
      sp \<in> set (level s) \<and>
      (if \<exists>q\<in>set (level s). 0 < plat_x q \<and> plat_x q < player_x (integrate dt keys s)
       then 0 < plat_x sp \<and> plat_x sp < player_x (integrate dt keys s) \<and>
            (\<forall>q\<in>set (level s). 0 < plat_x q \<and> plat_x q < player_x (integrate dt keys s)
                \<longrightarrow> plat_x q \<le> plat_x sp) \<and>
            find (\<lambda>q. plat_x q = plat_x sp) (level s) = Some sp
       else sp = hd (level s))"
proof -
  let ?px = "player_x (integrate dt keys s)"
  obtain sp where sp: "safePlat (level s) ?px = Some sp"
    using safePlat_nonempty [OF assms(4)] by blast
  have run: "updatePhysics dt keys s =
        Inr (s \<lparr> player :=
                 (integrate dt keys s) \<lparr> player_x := plat_x sp, player_y := plat_y sp - 60,
                                          player_vx := 0, player_vy := 0 \<rparr>,
               revives := revives s - 1 \<rparr>)"
    using assms(1-3) sp by (simp add: updatePhysics_def Let_def)
  show ?thesis
  proof (cases "\<exists>q\<in>set (level s). 0 < plat_x q \<and> plat_x q < ?px")
    case True
    from safePlat_preceding [OF True sp] run True show ?thesis by auto
  next
    case False
    from safePlat_fallback [OF False sp] have hd: "sp = hd (level s)" .
    then have "sp \<in> set (level s)" using assms(4) by simp
    with run hd False show ?thesis by auto
  qed
qed

text \<open>
  On \<open>levelFloorFirst\<close> a player falling at \<open>x = 700\<close> respawns on platform \<open>b\<close>
  (\<open>x = 500\<close>, the greatest below 700); falling at \<open>x = 30\<close>, where only the floor at
  \<open>x = 0\<close> lies to the left, it respawns on the first platform listed.
\<close>

theorem respawn_target_witness:
  "revives (scenario levelFloorFirst 700 790 14.4) > 0 \<and>
   levelFloorFirst \<noteq> [] \<and>
   player_x (integrate 16 {} (scenario levelFloorFirst 700 790 14.4)) = 700 \<and>
   player_y (integrate 16 {} (scenario levelFloorFirst 700 790 14.4)) = 805 \<and>
   updatePhysics 16 {} (scenario levelFloorFirst 700 790 14.4) =
     Inr ((scenario levelFloorFirst 500 290 0) \<lparr> revives := 2 \<rparr>) \<and>
   player_x (integrate 16 {} (scenario levelFloorFirst 30 790 14.4)) = 30 \<and>
   player_y (integrate 16 {} (scenario levelFloorFirst 30 790 14.4)) = 805 \<and>
   updatePhysics 16 {} (scenario levelFloorFirst 30 790 14.4) =
     Inr ((scenario levelFloorFirst 0 440 0) \<lparr> revives := 2 \<rparr>)"
  using respawn_target [of "scenario levelFloorFirst 700 790 14.4" 16 "{}"]
    respawn_target [of "scenario levelFloorFirst 30 790 14.4" 16 "{}"]
  by (simp add: tick_defs level_defs)

text \<open>
  The claim as written fails on \<open>levelFloorLast\<close>: the player falls at \<open>x = 100\<close>, the
  floor at \<open>x = 0\<close> is the platform with the greatest \<open>x\<close> below 100, and the tick puts the
  player on platform \<open>b\<close> at \<open>x = 500\<close>, the first one listed.
\<close>

theorem respawn_target_counterexample:
  "gameStatus (scenario levelFloorLast 100 790 14.4) = PLAYING \<and>
   revives (scenario levelFloorLast 100 790 14.4) = 3 \<and>
   player_x (integrate 16 {} (scenario levelFloorLast 100 790 14.4)) = 100 \<and>
   player_y (integrate 16 {} (scenario levelFloorLast 100 790 14.4)) = 805 \<and>
   map plat_x levelFloorLast = [500, 0] \<and>
   updatePhysics 16 {} (scenario levelFloorLast 100 790 14.4) =
     Inr ((scenario levelFloorLast 500 290 0) \<lparr> revives := 2 \<rparr>)"
  by (simp add: tick_defs level_defs)

section \<open>Winning\<close>

lemma integrate_x:
  "player_x (integrate dt keys s) =
     player_x (player s) + fst (applyControls dt keys (player s)) * MOVE_SPEED"
  by (simp add: integrate_def Let_def split: prod.splits)

text \<open>
  C6. If the horizontal position after integration is at or past the level length, the tick
  ends with status Won and nothing else of the win/loss block happens: no revive is taken,
  the status is not Lost, and no respawn platform is looked up, whatever the height. With
  level length 4000, a player at \<open>x = 3999\<close> whose resolved direction is \<open>+1\<close> (moving
  right at the move speed 5) is at 4004 after the tick, and the status is Won.
\<close>

theorem win_precedes_death_check:
  "(levelLength s \<le> player_x (integrate dt keys s) \<longrightarrow>
      updatePhysics dt keys s =
        Inr (s \<lparr> player := integrate dt keys s, gameStatus := WON, isPlaying := False \<rparr>)) \<and>
   (levelLength s = 4000 \<and> player_x (player s) = 3999 \<and>
    fst (applyControls dt keys (player s)) = 1 \<longrightarrow>
      player_x (integrate dt keys s) = 4004 \<and>
      (\<exists>s'. updatePhysics dt keys s = Inr s' \<and> gameStatus s' = WON \<and> revives s' = revives s))"
  by (simp add: integrate_x MOVE_SPEED_def) (simp add: updatePhysics_def Let_def integrate_x MOVE_SPEED_def)

theorem win_precedes_death_check_witness:
  "levelLength (scenario levelDeep 3999 790 14.4) = 4000 \<and>
   player_x (player (scenario levelDeep 3999 790 14.4)) = 3999 \<and>
   fst (applyControls 16 {''ArrowRight''} (player (scenario levelDeep 3999 790 14.4))) = 1 \<and>
   player_x (integrate 16 {''ArrowRight''} (scenario levelDeep 3999 790 14.4)) = 4004 \<and>
   800 < player_y (integrate 16 {''ArrowRight''} (scenario levelDeep 3999 790 14.4)) \<and>
   updatePhysics 16 {''ArrowRight''} (scenario levelDeep 3999 790 14.4) =
     Inr ((scenario levelDeep 3999 790 14.4)
            \<lparr> player := integrate 16 {''ArrowRight''} (scenario levelDeep 3999 790 14.4),
              gameStatus := WON, isPlaying := False \<rparr>)"
  using win_precedes_death_check [of "scenario levelDeep 3999 790 14.4" 16 "{''ArrowRight''}"]
  by (simp add: tick_defs level_defs)

section \<open>Revive accounting\<close>

lemma updatePhysics_revives:
  "updatePhysics dt keys s = Inr s' \<Longrightarrow> revives s' \<le> revives s"
  by (auto simp: updatePhysics_def Let_def split: if_splits option.splits)

lemma handleTrapTrigger_revives: "revives (handleTrapTrigger r t s) = revives s"
  by (simp add: handleTrapTrigger_def Let_def split: TrapType.splits option.splits)

lemma fall_revive:
  assumes "fallsPastThreshold dt keys s" and "0 < revives s" and "level s \<noteq> []"
  shows "\<exists>s'. updatePhysics dt keys s = Inr s' \<and> revives s' = revives s - 1 \<and>
              gameStatus s' = gameStatus s"
proof -
  obtain sp where "safePlat (level s) (player_x (integrate dt keys s)) = Some sp"
    using safePlat_nonempty [OF assms(3)] by blast
  with assms(1,2) show ?thesis
    by (simp add: updatePhysics_def fallsPastThreshold_def Let_def)
qed

lemma fall_lost:
  assumes "fallsPastThreshold dt keys s" and "revives s \<le> 0"
  shows "updatePhysics dt keys s =
           Inr (s \<lparr> player := integrate dt keys s, gameStatus := LOST, isPlaying := False \<rparr>)"
  using assms by (simp add: updatePhysics_def fallsPastThreshold_def Let_def)

lemma fall_step:
  assumes "fallsPastThreshold dt keys s" and "updatePhysics dt keys s = Inr s'"
  shows "if 0 < revives s then revives s' = revives s - 1 \<and> gameStatus s' = gameStatus s
         else revives s' = revives s \<and> gameStatus s' = LOST"
  using assms
  by (auto simp: updatePhysics_def fallsPastThreshold_def Let_def split: if_splits option.splits)

text \<open>
  What the code does wherever the respawn finds a platform: a tick that reaches the death
  check (the level length is not reached) with \<open>y > 800\<close> takes exactly one revive and
  keeps the status when revives are left and the level is not empty; with no revive left
  it sets the status to Lost. No tick and no trap ever increases the revives. Hence from 3
  revives in a Playing state, three such ticks that succeed leave 2, 1 and 0 revives with
  the status Playing, and a fourth sets Lost.
\<close>

theorem revive_accounting:
  "(fallsPastThreshold dt keys s \<and> 0 < revives s \<and> level s \<noteq> [] \<longrightarrow>
      (\<exists>s'. updatePhysics dt keys s = Inr s' \<and> revives s' = revives s - 1 \<and>
            gameStatus s' = gameStatus s)) \<and>
   (fallsPastThreshold dt keys s \<and> revives s \<le> 0 \<longrightarrow>
      (\<exists>s'. updatePhysics dt keys s = Inr s' \<and> revives s' = revives s \<and>
            gameStatus s' = LOST)) \<and>
   (updatePhysics dt keys s = Inr s' \<longrightarrow> revives s' \<le> revives s) \<and>
   revives (handleTrapTrigger r t s) = revives s \<and>
   (revives s0 = 3 \<and> gameStatus s0 = PLAYING \<and>
    fallsPastThreshold d0 k0 s0 \<and> updatePhysics d0 k0 s0 = Inr s1 \<and>
    fallsPastThreshold d1 k1 s1 \<and> updatePhysics d1 k1 s1 = Inr s2 \<and>
    fallsPastThreshold d2 k2 s2 \<and> updatePhysics d2 k2 s2 = Inr s3 \<and>
    fallsPastThreshold d3 k3 s3 \<and> updatePhysics d3 k3 s3 = Inr s4 \<longrightarrow>
      revives s1 = 2 \<and> gameStatus s1 = PLAYING \<and>
      revives s2 = 1 \<and> gameStatus s2 = PLAYING \<and>
      revives s3 = 0 \<and> gameStatus s3 = PLAYING \<and>
      revives s4 = 0 \<and> gameStatus s4 = LOST)"
proof -
  have c1: "fallsPastThreshold dt keys s \<and> 0 < revives s \<and> level s \<noteq> [] \<longrightarrow>
      (\<exists>s'. updatePhysics dt keys s = Inr s' \<and> revives s' = revives s - 1 \<and>
            gameStatus s' = gameStatus s)"
    using fall_revive by blast
  have c2: "fallsPastThreshold dt keys s \<and> revives s \<le> 0 \<longrightarrow>
      (\<exists>s'. updatePhysics dt keys s = Inr s' \<and> revives s' = revives s \<and>
            gameStatus s' = LOST)"
    using fall_lost [of dt keys s] by simp
  have c3: "updatePhysics dt keys s = Inr s' \<longrightarrow> revives s' \<le> revives s"
    using updatePhysics_revives by blast
  have c4: "revives (handleTrapTrigger r t s) = revives s"
    by (rule handleTrapTrigger_revives)
  have c5: "revives s0 = 3 \<and> gameStatus s0 = PLAYING \<and>
    fallsPastThreshold d0 k0 s0 \<and> updatePhysics d0 k0 s0 = Inr s1 \<and>
    fallsPastThreshold d1 k1 s1 \<and> updatePhysics d1 k1 s1 = Inr s2 \<and>
    fallsPastThreshold d2 k2 s2 \<and> updatePhysics d2 k2 s2 = Inr s3 \<and>
    fallsPastThreshold d3 k3 s3 \<and> updatePhysics d3 k3 s3 = Inr s4 \<longrightarrow>
      revives s1 = 2 \<and> gameStatus s1 = PLAYING \<and>
      revives s2 = 1 \<and> gameStatus s2 = PLAYING \<and>
      revives s3 = 0 \<and> gameStatus s3 = PLAYING \<and>
      revives s4 = 0 \<and> gameStatus s4 = LOST"
  proof
    assume a: "revives s0 = 3 \<and> gameStatus s0 = PLAYING \<and>
      fallsPastThreshold d0 k0 s0 \<and> updatePhysics d0 k0 s0 = Inr s1 \<and>
      fallsPastThreshold d1 k1 s1 \<and> updatePhysics d1 k1 s1 = Inr s2 \<and>
      fallsPastThreshold d2 k2 s2 \<and> updatePhysics d2 k2 s2 = Inr s3 \<and>
      fallsPastThreshold d3 k3 s3 \<and> updatePhysics d3 k3 s3 = Inr s4"
    then have 1: "revives s1 = 2 \<and> gameStatus s1 = PLAYING"
      using fall_step [of d0 k0 s0 s1] by simp
    with a have 2: "revives s2 = 1 \<and> gameStatus s2 = PLAYING"
      using fall_step [of d1 k1 s1 s2] by simp
    with a have 3: "revives s3 = 0 \<and> gameStatus s3 = PLAYING"
      using fall_step [of d2 k2 s2 s3] by simp
    with a have 4: "revives s4 = 0 \<and> gameStatus s4 = LOST"
      using fall_step [of d3 k3 s3 s4] by simp
    from 1 2 3 4 show "revives s1 = 2 \<and> gameStatus s1 = PLAYING \<and>
        revives s2 = 1 \<and> gameStatus s2 = PLAYING \<and>
        revives s3 = 0 \<and> gameStatus s3 = PLAYING \<and>
        revives s4 = 0 \<and> gameStatus s4 = LOST" by simp
  qed
  show ?thesis
    by (rule conjI [OF c1 conjI [OF c2 conjI [OF c3 conjI [OF c4 c5]]]])
qed

theorem revive_accounting_witness:
  "fallsPastThreshold 16 {} (scenario levelDeep 100 810 0) \<and>
   updatePhysics 16 {} (scenario levelDeep 100 810 0) =
     Inr ((scenario levelDeep 50 840 0) \<lparr> revives := 2 \<rparr>) \<and>
   fallsPastThreshold 16 {} ((scenario levelDeep 50 840 0) \<lparr> revives := 2 \<rparr>) \<and>
   updatePhysics 16 {} ((scenario levelDeep 50 840 0) \<lparr> revives := 2 \<rparr>) =
     Inr ((scenario levelDeep 50 840 0) \<lparr> revives := 1 \<rparr>) \<and>
   fallsPastThreshold 16 {} ((scenario levelDeep 50 840 0) \<lparr> revives := 1 \<rparr>) \<and>
   updatePhysics 16 {} ((scenario levelDeep 50 840 0) \<lparr> revives := 1 \<rparr>) =
     Inr ((scenario levelDeep 50 840 0) \<lparr> revives := 0 \<rparr>) \<and>
   fallsPastThreshold 16 {} ((scenario levelDeep 50 840 0) \<lparr> revives := 0 \<rparr>) \<and>
   updatePhysics 16 {} ((scenario levelDeep 50 840 0) \<lparr> revives := 0 \<rparr>) =
     Inr ((scenario levelDeep 50 840.6 0.6)
            \<lparr> revives := 0, gameStatus := LOST, isPlaying := False \<rparr>) \<and>
   gameStatus ((scenario levelDeep 50 840.6 0.6)
            \<lparr> revives := 0, gameStatus := LOST, isPlaying := False \<rparr>) = LOST \<and>
   revives (handleTrapTrigger 0 BOMB (scenario levelDeep 100 810 0)) =
     revives (scenario levelDeep 100 810 0)"
proof -
  have r0: "revives (scenario levelDeep 100 810 0) = 3 \<and>
            gameStatus (scenario levelDeep 100 810 0) = PLAYING"
    by (simp add: scenario_def newGame_def INITIAL_GAME_STATE_def)
  have f0: "fallsPastThreshold 16 {} (scenario levelDeep 100 810 0)"
    by (simp add: tick_defs level_defs)
  have u0: "updatePhysics 16 {} (scenario levelDeep 100 810 0) =
     Inr ((scenario levelDeep 50 840 0) \<lparr> revives := 2 \<rparr>)"
    by (simp add: tick_defs level_defs)
  have f1: "fallsPastThreshold 16 {} ((scenario levelDeep 50 840 0) \<lparr> revives := 2 \<rparr>)"
    by (simp add: tick_defs level_defs)
  have u1: "updatePhysics 16 {} ((scenario levelDeep 50 840 0) \<lparr> revives := 2 \<rparr>) =
     Inr ((scenario levelDeep 50 840 0) \<lparr> revives := 1 \<rparr>)"
    by (simp add: tick_defs level_defs)
  have f2: "fallsPastThreshold 16 {} ((scenario levelDeep 50 840 0) \<lparr> revives := 1 \<rparr>)"
    by (simp add: tick_defs level_defs)
  have u2: "updatePhysics 16 {} ((scenario levelDeep 50 840 0) \<lparr> revives := 1 \<rparr>) =
     Inr ((scenario levelDeep 50 840 0) \<lparr> revives := 0 \<rparr>)"
    by (simp add: tick_defs level_defs)
  have f3: "fallsPastThreshold 16 {} ((scenario levelDeep 50 840 0) \<lparr> revives := 0 \<rparr>)"
    by (simp add: tick_defs level_defs)
  have u3: "updatePhysics 16 {} ((scenario levelDeep 50 840 0) \<lparr> revives := 0 \<rparr>) =
     Inr ((scenario levelDeep 50 840.6 0.6)
            \<lparr> revives := 0, gameStatus := LOST, isPlaying := False \<rparr>)"
    by (simp add: tick_defs level_defs)
  have acc: "gameStatus ((scenario levelDeep 50 840.6 0.6)
            \<lparr> revives := 0, gameStatus := LOST, isPlaying := False \<rparr>) = LOST \<and>
     revives (handleTrapTrigger 0 BOMB (scenario levelDeep 100 810 0)) =
       revives (scenario levelDeep 100 810 0)"
    using revive_accounting [of 16 "{}" "scenario levelDeep 100 810 0"
      "(scenario levelDeep 50 840 0) \<lparr> revives := 2 \<rparr>" 0 BOMB
      "scenario levelDeep 100 810 0" 16 "{}" "(scenario levelDeep 50 840 0) \<lparr> revives := 2 \<rparr>"
      16 "{}" "(scenario levelDeep 50 840 0) \<lparr> revives := 1 \<rparr>"
      16 "{}" "(scenario levelDeep 50 840 0) \<lparr> revives := 0 \<rparr>"
      16 "{}" "(scenario levelDeep 50 840.6 0.6)
            \<lparr> revives := 0, gameStatus := LOST, isPlaying := False \<rparr>"]
      r0 f0 u0 f1 u1 f2 u2 f3 u3
    by blast
  from f0 u0 f1 u1 f2 u2 f3 u3 acc show ?thesis by blast
qed

text \<open>
  C5. The accounting breaks on an empty level: in a Playing state with 3 revives and no
  platform, a fall past the threshold that reaches the death check raises a TypeError
  instead of taking a revive, so the counter stays at 3 and the state is not updated.
\<close>

theorem revive_fall_faults_on_empty_level:
  "gameStatus (scenario [] 300 795 15) = PLAYING \<and>
   revives (scenario [] 300 795 15) = 3 \<and>
   level (scenario [] 300 795 15) = [] \<and>
   fallsPastThreshold 16 {} (scenario [] 300 795 15) \<and>
   updatePhysics 16 {} (scenario [] 300 795 15) = Inl TypeError"
  by (simp add: tick_defs)

section \<open>Elapsed time\<close>

lemma updatePhysics_timeElapsed:
  assumes "gameStatus s = PLAYING" and "updatePhysics dt keys s = Inr s'"
  shows "timeElapsed s' =
           (if gameStatus s' = PLAYING \<and> revives s' = revives s
            then timeElapsed s + dt / 1000 else timeElapsed s)"
  using assms
  by (auto simp: updatePhysics_def Let_def split: if_splits option.splits)

lemma deltaTime_bounds:
  "deltaTime time lastTime \<le> 50 \<and> (lastTime = 0 \<or> lastTime \<le> time \<longrightarrow> 0 \<le> deltaTime time lastTime)"
  by (auto simp: deltaTime_def)

text \<open>
  C2 (amended). A frame of the loop that completes on a Playing state adds exactly the
  frame's clamped elapsed time, divided by 1000, to the elapsed time when the resulting
  status is still Playing and no revive was taken; a frame that wins, loses or respawns
  leaves the elapsed time as it was. The clamped time is at most 50, the next frame is
  requested exactly when the resulting status is Playing, and when the frame time is not
  earlier than the previous one the clamped time is not negative, so the elapsed time does
  not decrease.
\<close>

theorem elapsed_time_accumulates:
  assumes "gameStatus s = PLAYING"
    and "gameLoop time keys (lastTime, s) = Inr (lastTime', s', again)"
  shows "timeElapsed s' =
           (if gameStatus s' = PLAYING \<and> revives s' = revives s
            then timeElapsed s + deltaTime time lastTime / 1000 else timeElapsed s) \<and>
         deltaTime time lastTime \<le> 50 \<and>
         again = (gameStatus s' = PLAYING) \<and>
         (lastTime = 0 \<or> lastTime \<le> time \<longrightarrow>
            0 \<le> deltaTime time lastTime \<and> timeElapsed s \<le> timeElapsed s')"
proof -
  from assms(2) have upd: "updatePhysics (deltaTime time lastTime) keys s = Inr s'"
    and again: "again = (gameStatus s' = PLAYING)"
    by (auto simp: gameLoop_def split: sum.splits)
  note te = updatePhysics_timeElapsed [OF assms(1) upd]
  have mono: "lastTime = 0 \<or> lastTime \<le> time \<longrightarrow>
            0 \<le> deltaTime time lastTime \<and> timeElapsed s \<le> timeElapsed s'"
    using te deltaTime_bounds [of time lastTime] by (auto split: if_splits)
  from te again mono deltaTime_bounds [of time lastTime] show ?thesis by blast
qed

text \<open>
  A plain frame 16 after the previous one adds 0.016; a frame in which the player falls
  past the threshold and respawns adds nothing.
\<close>

theorem elapsed_time_accumulates_witness:
  "gameStatus (scenario levelFloorFirst 100 300 0) = PLAYING \<and>
   deltaTime 1016 1000 = 16 \<and>
   gameLoop 1016 {} (1000, scenario levelFloorFirst 100 300 0) =
     Inr (1016, (scenario levelFloorFirst 100 300.6 0.6) \<lparr> timeElapsed := 0.016 \<rparr>, True) \<and>
   gameLoop 1016 {} (1000, scenario levelFloorFirst 700 790 14.4) =
     Inr (1016, (scenario levelFloorFirst 500 290 0) \<lparr> revives := 2 \<rparr>, True) \<and>
   timeElapsed ((scenario levelFloorFirst 500 290 0) \<lparr> revives := 2 \<rparr>) =
     timeElapsed (scenario levelFloorFirst 700 790 14.4) \<and>
   timeElapsed ((scenario levelFloorFirst 100 300.6 0.6) \<lparr> timeElapsed := 0.016 \<rparr>) =
     timeElapsed (scenario levelFloorFirst 100 300 0) + deltaTime 1016 1000 / 1000 \<and>
   timeElapsed (scenario levelFloorFirst 100 300 0) \<le>
     timeElapsed ((scenario levelFloorFirst 100 300.6 0.6) \<lparr> timeElapsed := 0.016 \<rparr>)"
proof -
  have p: "gameStatus (scenario levelFloorFirst 100 300 0) = PLAYING \<and>
           gameStatus (scenario levelFloorFirst 700 790 14.4) = PLAYING"
    by (simp add: scenario_def newGame_def INITIAL_GAME_STATE_def)
  have d: "deltaTime 1016 1000 = 16" by (simp add: deltaTime_def)
  have g1: "gameLoop 1016 {} (1000, scenario levelFloorFirst 100 300 0) =
     Inr (1016, (scenario levelFloorFirst 100 300.6 0.6) \<lparr> timeElapsed := 0.016 \<rparr>, True)"
    by (simp add: gameLoop_def d) (simp add: tick_defs level_defs)
  have g2: "gameLoop 1016 {} (1000, scenario levelFloorFirst 700 790 14.4) =
     Inr (1016, (scenario levelFloorFirst 500 290 0) \<lparr> revives := 2 \<rparr>, True)"
    by (simp add: gameLoop_def d) (simp add: tick_defs level_defs)
  have t1: "timeElapsed ((scenario levelFloorFirst 100 300.6 0.6) \<lparr> timeElapsed := 0.016 \<rparr>) =
       timeElapsed (scenario levelFloorFirst 100 300 0) + deltaTime 1016 1000 / 1000 \<and>
     timeElapsed (scenario levelFloorFirst 100 300 0) \<le>
       timeElapsed ((scenario levelFloorFirst 100 300.6 0.6) \<lparr> timeElapsed := 0.016 \<rparr>)"
    using elapsed_time_accumulates [OF conjunct1 [OF p] g1]
    by (simp add: scenario_def newGame_def INITIAL_GAME_STATE_def)
  have t2: "timeElapsed ((scenario levelFloorFirst 500 290 0) \<lparr> revives := 2 \<rparr>) =
     timeElapsed (scenario levelFloorFirst 700 790 14.4)"
    using elapsed_time_accumulates [OF conjunct2 [OF p] g2]
    by (simp add: scenario_def newGame_def INITIAL_GAME_STATE_def)
  from p d g1 g2 t1 t2 show ?thesis by blast
qed

text \<open>
  The claim as written fails on a respawn: the status after the tick is still Playing, and
  the elapsed time is not the old one plus \<open>16 / 1000\<close>.
\<close>

theorem elapsed_time_counterexample:
  "gameStatus (scenario levelFloorFirst 700 790 14.4) = PLAYING \<and>
   updatePhysics 16 {} (scenario levelFloorFirst 700 790 14.4) =
     Inr ((scenario levelFloorFirst 500 290 0) \<lparr> revives := 2 \<rparr>) \<and>
   gameStatus ((scenario levelFloorFirst 500 290 0) \<lparr> revives := 2 \<rparr>) = PLAYING \<and>
   timeElapsed ((scenario levelFloorFirst 500 290 0) \<lparr> revives := 2 \<rparr>) \<noteq>
     timeElapsed (scenario levelFloorFirst 700 790 14.4) + 16 / 1000"
  by (simp add: tick_defs level_defs)

section \<open>Rounding to a double\<close>

lemma round_half_even_of_int: "round_half_even (of_int m) = m"
  by (simp add: round_half_even_def)

lemma binary64_scaled:
  assumes "x \<noteq> 0" and "max \<lfloor>log 2 \<bar>x\<bar>\<rfloor> (- 1022) - 52 = e"
  shows "binary64 x = of_int (round_half_even (x / 2 powr of_int e)) * 2 powr of_int e"
  using assms by (simp add: binary64_def Let_def)

lemma binary64_normal:
  assumes "2 ^ n \<le> \<bar>x\<bar>" and "\<bar>x\<bar> < 2 ^ Suc n" and "n \<le> 52"
  shows "binary64 x = of_int (round_half_even (x * 2 ^ (52 - n))) / 2 ^ (52 - n)"
proof -
  have pos: "0 < \<bar>x\<bar>" using assms(1) by (smt (verit) zero_less_power)
  have "(2::real) powr of_int (int n) \<le> \<bar>x\<bar> \<and> \<bar>x\<bar> < 2 powr of_int (int n + 1)"
    using assms(1,2) by (simp add: powr_realpow powr_add)
  then have fl: "\<lfloor>log 2 \<bar>x\<bar>\<rfloor> = int n"
    using floor_log_eq_powr_iff [of "\<bar>x\<bar>" 2 "int n"] pos by simp
  have e: "max \<lfloor>log 2 \<bar>x\<bar>\<rfloor> (- 1022) - 52 = - int (52 - n)"
    using fl assms(3) by simp
  have p: "(2::real) powr of_int (- int (52 - n)) = 1 / 2 ^ (52 - n)"
    by (simp add: powr_minus powr_realpow inverse_eq_divide)
  from pos have "x \<noteq> 0" by auto
  from binary64_scaled [OF this e] show ?thesis by (simp only: p) simp
qed

lemma binary64_small:
  assumes "1 / 2 ^ Suc n \<le> \<bar>x\<bar>" and "\<bar>x\<bar> < 1 / 2 ^ n" and "n \<le> 1021"
  shows "binary64 x = of_int (round_half_even (x * 2 ^ (53 + n))) / 2 ^ (53 + n)"
proof -
  have pos: "0 < \<bar>x\<bar>" using assms(1) by (smt (verit) zero_less_power divide_pos_pos)
  have pw: "(2::real) powr of_int (- int k) = 1 / 2 ^ k" for k
    by (simp add: powr_minus powr_realpow inverse_eq_divide)
  have up: "real_of_int (- int (Suc n)) + 1 = real_of_int (- int n)" by simp
  have "(2::real) powr real_of_int (- int (Suc n)) \<le> \<bar>x\<bar> \<and>
        \<bar>x\<bar> < 2 powr (real_of_int (- int (Suc n)) + 1)"
    unfolding up pw using assms(1,2) by simp
  then have fl: "\<lfloor>log 2 \<bar>x\<bar>\<rfloor> = - int (Suc n)"
    using floor_log_eq_powr_iff [of "\<bar>x\<bar>" 2 "- int (Suc n)"] pos by simp
  have e: "max \<lfloor>log 2 \<bar>x\<bar>\<rfloor> (- 1022) - 52 = - int (53 + n)"
    using fl assms(3) by simp
  have p: "(2::real) powr of_int (- int (53 + n)) = 1 / 2 ^ (53 + n)"
    by (rule pw)
  from pos have "x \<noteq> 0" by auto
  from binary64_scaled [OF this e] show ?thesis by (simp only: p) simp
qed

lemma binary64_of_int:
  assumes "\<bar>m\<bar> < 2 ^ 53"
  shows "binary64 (of_int m) = of_int m"
proof (cases "m = 0")
  case True
  then show ?thesis by (simp add: binary64_def)
next
  case False
  then have "1 \<le> nat \<bar>m\<bar>" by simp
  from ex_power_ivl1 [of 2 "nat \<bar>m\<bar>", OF _ this]
  obtain n where n: "2 ^ n \<le> nat \<bar>m\<bar>" "nat \<bar>m\<bar> < 2 ^ (n + 1)" by auto
  then have lo: "(2::int) ^ n \<le> \<bar>m\<bar>" and hi: "\<bar>m\<bar> < (2::int) ^ Suc n"
    by (simp_all add: le_nat_iff nat_less_iff)
  from lo assms have lt: "(2::int) ^ n < 2 ^ 53" by linarith
  have "n < 53" by (rule power_less_imp_less_exp [of "2::int"]) (use lt in simp_all)
  then have n52: "n \<le> 52" by simp
  have lo': "(2::real) ^ n \<le> \<bar>of_int m\<bar>"
    using lo by (metis of_int_abs of_int_le_iff of_int_numeral of_int_power)
  have hi': "\<bar>of_int m :: real\<bar> < 2 ^ Suc n"
    using hi by (metis of_int_abs of_int_less_iff of_int_numeral of_int_power)
  have "of_int m * (2::real) ^ (52 - n) = of_int (m * 2 ^ (52 - n))" by simp
  then have "round_half_even (of_int m * 2 ^ (52 - n)) = m * 2 ^ (52 - n)"
    by (simp only: round_half_even_of_int)
  with binary64_normal [OF lo' hi' n52] show ?thesis by simp
qed

lemma binary64_numeral:
  "numeral w < (2::int) ^ 53 \<Longrightarrow> binary64 (numeral w) = numeral w"
  using binary64_of_int [of "numeral w"] by simp

lemma binary64_neg_numeral:
  "numeral w < (2::int) ^ 53 \<Longrightarrow> binary64 (- numeral w) = - numeral w"
  using binary64_of_int [of "- numeral w"] by simp

lemma binary64_0: "binary64 0 = 0" by (simp add: binary64_def)
lemma binary64_1: "binary64 1 = 1" using binary64_of_int [of 1] by simp

lemmas binary64_simps = binary64_numeral binary64_neg_numeral binary64_0 binary64_1

text \<open>
  Roundings used in the examples. The double written \<open>0.1\<close> is
  \<open>3602879701896397 / 2 ^ 55\<close>; \<open>2.3\<close> is \<open>2589569785738035 / 2 ^ 50\<close>,
  \<open>8.799999999999999\<close> is \<open>4953959590107545 / 2 ^ 49\<close> and \<open>59.1\<close> is
  \<open>8317585561799885 / 2 ^ 47\<close>.
\<close>

lemma snap_tenth:
  "binary64 (- (1725779377208374067 / 36028797018963968)) =
     - (6741325692220211 / 140737488355328)"
  by (subst binary64_normal [of 5]) (simp_all add: round_half_even_def)

lemma feet_tenth:
  "binary64 (14073748835533 / 140737488355328) = 14073748835533 / 140737488355328"
  by (subst binary64_small [of 3]) (simp_all add: round_half_even_def)

lemma air_next:
  "binary64 (12497488965953125 / 1125899906842624) = 3124372241488281 / 281474976710656"
  by (subst binary64_normal [of 3]) (simp_all add: round_half_even_def)

lemma air_feet0:
  "binary64 (56632765314183987 / 1125899906842624) = 3539547832136499 / 70368744177664"
  by (subst binary64_normal [of 5]) (simp_all add: round_half_even_def)

lemma air_feet1:
  "binary64 (16635171123599769 / 281474976710656) = 2079396390449971 / 35184372088832"
  by (subst binary64_normal [of 5]) (simp_all add: round_half_even_def)

section \<open>Vertical collision\<close>

lemma collision_loop_cases:
  "collision_loop rnd nextX y lvl (nextY, vy, False) = (ny, v, g) \<Longrightarrow>
   (if g then
      \<exists>before P after. lvl = before @ P # after \<and>
        rnd (nextX + 30) > plat_x P \<and> nextX < rnd (plat_x P + plat_width P) \<and>
        rnd (y + 48) \<le> plat_y P \<and> rnd (nextY + 48) \<ge> plat_y P \<and>
        ny = rnd (plat_y P - 48) \<and> v = 0 \<and>
        (\<forall>q\<in>set before.
           \<not> (rnd (nextX + 30) > plat_x q \<and> nextX < rnd (plat_x q + plat_width q) \<and>
              rnd (y + 48) \<le> plat_y q \<and> rnd (nextY + 48) \<ge> plat_y q))
    else ny = nextY \<and> v = vy \<and>
        (\<forall>q\<in>set lvl.
           \<not> (rnd (nextX + 30) > plat_x q \<and> nextX < rnd (plat_x q + plat_width q) \<and>
              rnd (y + 48) \<le> plat_y q \<and> rnd (nextY + 48) \<ge> plat_y q)))"
proof (induction lvl)
  case Nil
  then show ?case by simp
next
  case (Cons plat rest)
  show ?case
  proof (cases "rnd (nextX + 30) > plat_x plat \<and> nextX < rnd (plat_x plat + plat_width plat) \<and>
                 rnd (y + 48) \<le> plat_y plat \<and> rnd (nextY + 48) \<ge> plat_y plat")
    case True
    with Cons.prems have "ny = rnd (plat_y plat - 48)" "v = 0" "g" by auto
    with True have "plat # rest = [] @ plat # rest \<and>
        rnd (nextX + 30) > plat_x plat \<and> nextX < rnd (plat_x plat + plat_width plat) \<and>
        rnd (y + 48) \<le> plat_y plat \<and> rnd (nextY + 48) \<ge> plat_y plat \<and>
        ny = rnd (plat_y plat - 48) \<and> v = 0 \<and>
        (\<forall>q\<in>set [].
           \<not> (rnd (nextX + 30) > plat_x q \<and> nextX < rnd (plat_x q + plat_width q) \<and>
              rnd (y + 48) \<le> plat_y q \<and> rnd (nextY + 48) \<ge> plat_y q))" by simp
    then have "\<exists>before P after. plat # rest = before @ P # after \<and>
        rnd (nextX + 30) > plat_x P \<and> nextX < rnd (plat_x P + plat_width P) \<and>
        rnd (y + 48) \<le> plat_y P \<and> rnd (nextY + 48) \<ge> plat_y P \<and>
        ny = rnd (plat_y P - 48) \<and> v = 0 \<and>
        (\<forall>q\<in>set before.
           \<not> (rnd (nextX + 30) > plat_x q \<and> nextX < rnd (plat_x q + plat_width q) \<and>
              rnd (y + 48) \<le> plat_y q \<and> rnd (nextY + 48) \<ge> plat_y q))" by blast
    with \<open>g\<close> show ?thesis by simp
  next
    case False
    with Cons.prems have rec: "collision_loop rnd nextX y rest (nextY, vy, False) = (ny, v, g)"
      by auto
    note ih = Cons.IH [OF rec]
    show ?thesis
    proof (cases g)
      case True
      with ih obtain before P after where
        d: "rest = before @ P # after" and
        m: "rnd (nextX + 30) > plat_x P \<and> nextX < rnd (plat_x P + plat_width P) \<and>
            rnd (y + 48) \<le> plat_y P \<and> rnd (nextY + 48) \<ge> plat_y P \<and>
            ny = rnd (plat_y P - 48) \<and> v = 0" and
        b: "\<forall>q\<in>set before.
           \<not> (rnd (nextX + 30) > plat_x q \<and> nextX < rnd (plat_x q + plat_width q) \<and>
              rnd (y + 48) \<le> plat_y q \<and> rnd (nextY + 48) \<ge> plat_y q)"
        by auto
      from d have d': "plat # rest = (plat # before) @ P # after" by simp
      from b False have b': "\<forall>q\<in>set (plat # before).
           \<not> (rnd (nextX + 30) > plat_x q \<and> nextX < rnd (plat_x q + plat_width q) \<and>
              rnd (y + 48) \<le> plat_y q \<and> rnd (nextY + 48) \<ge> plat_y q)" by auto
      from d' m b' True show ?thesis by (simp only: if_True) blast
    next
      case g: False
      with ih False show ?thesis by auto
    qed
  qed
qed

text \<open>
  C3 (amended). After the collision block the player is grounded exactly when it is
  descending and some platform passes the test of the code: its span overlaps the
  tentative extent (\<open>nextX + 30 > x\<close> and \<open>nextX < x + width\<close>), the feet \<open>y + 48\<close>
  started at or above its top, and the tentative feet \<open>nextY + 48\<close> reach its top, each
  sum as the arithmetic rounds it. Then the vertical velocity is zero and the height is
  \<open>top - 48\<close>, as rounded, of the first such platform in list order: no platform listed
  before it passes the test. Otherwise the tentative height and the velocity stand, and
  while descending no platform passes the test. Nothing is said of platforms listed after
  the one landed on. This holds for every rounding, the identity and \<open>binary64\<close> among
  them.
\<close>

theorem collision_lands_on_first_match:
  assumes "resolveCollision rnd lvl nextX y vy = (ny, v, g)"
  shows "if g then
           0 \<le> vy \<and> v = 0 \<and>
           (\<exists>before P after. lvl = before @ P # after \<and>
              rnd (nextX + 30) > plat_x P \<and> nextX < rnd (plat_x P + plat_width P) \<and>
              rnd (y + 48) \<le> plat_y P \<and> rnd (rnd (y + vy) + 48) \<ge> plat_y P \<and>
              ny = rnd (plat_y P - 48) \<and>
              (\<forall>q\<in>set before.
                 \<not> (rnd (nextX + 30) > plat_x q \<and> nextX < rnd (plat_x q + plat_width q) \<and>
                    rnd (y + 48) \<le> plat_y q \<and> rnd (rnd (y + vy) + 48) \<ge> plat_y q)))
         else
           ny = rnd (y + vy) \<and> v = vy \<and>
           (0 \<le> vy \<longrightarrow>
              (\<forall>q\<in>set lvl.
                 \<not> (rnd (nextX + 30) > plat_x q \<and> nextX < rnd (plat_x q + plat_width q) \<and>
                    rnd (y + 48) \<le> plat_y q \<and> rnd (rnd (y + vy) + 48) \<ge> plat_y q)))"
proof (cases "0 \<le> vy")
  case False
  with assms show ?thesis by (auto simp: resolveCollision_def)
next
  case True
  with assms have loop: "collision_loop rnd nextX y lvl (rnd (y + vy), vy, False) = (ny, v, g)"
    by (simp add: resolveCollision_def)
  note cases = collision_loop_cases [OF loop]
  show ?thesis
  proof (cases g)
    case g: True
    with cases True show ?thesis by (simp only: if_True) blast
  next
    case g: False
    with cases show ?thesis by auto
  qed
qed

text \<open>
  In binary64 arithmetic: with the higher platform listed first the player lands on it;
  from higher up, or moving upwards, it stays in the air. On a platform whose top is the
  double \<open>0.1\<close> the landing height is the double nearest to \<open>0.1 - 48\<close>, and adding 48
  to it gives \<open>0.10000000000000142\<close>, not the top. From \<open>y = 2.3\<close> at speed
  \<open>8.799999999999999\<close> the tentative feet round to \<open>59.099999999999994\<close>, below a top
  at \<open>59.1\<close>, and the player stays in the air.
\<close>

theorem collision_lands_on_first_match_witness:
  "resolveCollision binary64 (rev levelStep) 100 452 15 = (457, 0, True) \<and>
   rev levelStep =
     [] @ \<lparr>plat_id = ''high'', plat_x = 120, plat_y = 505, plat_width = 280, plat_height = 20\<rparr> #
     [\<lparr>plat_id = ''low'', plat_x = 0, plat_y = 510, plat_width = 110, plat_height = 20\<rparr>] \<and>
   resolveCollision binary64 levelStep 100 400 15 = (415, 15, False) \<and>
   resolveCollision binary64 levelStep 100 452 (- 3) = (449, - 3, False) \<and>
   resolveCollision binary64
     [\<lparr>plat_id = ''tenth'', plat_x = 0, plat_y = 3602879701896397 / 36028797018963968,
       plat_width = 400, plat_height = 20\<rparr>] 100 (- 50) 3 =
     (- (6741325692220211 / 140737488355328), 0, True) \<and>
   binary64 (- (6741325692220211 / 140737488355328) + 48) =
     14073748835533 / 140737488355328 \<and>
   resolveCollision binary64
     [\<lparr>plat_id = ''p'', plat_x = 0, plat_y = 8317585561799885 / 140737488355328,
       plat_width = 400, plat_height = 20\<rparr>]
     100 (2589569785738035 / 1125899906842624) (4953959590107545 / 562949953421312) =
     (3124372241488281 / 281474976710656, 4953959590107545 / 562949953421312, False)"
proof -
  have a: "resolveCollision binary64 (rev levelStep) 100 452 15 = (457, 0, True)"
    by (simp add: resolveCollision_def level_defs binary64_simps)
  have b: "resolveCollision binary64 levelStep 100 400 15 = (415, 15, False)"
    by (simp add: resolveCollision_def level_defs binary64_simps)
  have c: "resolveCollision binary64 levelStep 100 452 (- 3) = (449, - 3, False)"
    by (simp add: resolveCollision_def level_defs binary64_simps)
  have d: "resolveCollision binary64
     [\<lparr>plat_id = ''tenth'', plat_x = 0, plat_y = 3602879701896397 / 36028797018963968,
       plat_width = 400, plat_height = 20\<rparr>] 100 (- 50) 3 =
     (- (6741325692220211 / 140737488355328), 0, True)"
    by (simp add: resolveCollision_def binary64_simps snap_tenth)
  have d': "binary64 (- (6741325692220211 / 140737488355328) + 48) =
     14073748835533 / 140737488355328"
    by (simp add: feet_tenth)
  have e: "resolveCollision binary64
     [\<lparr>plat_id = ''p'', plat_x = 0, plat_y = 8317585561799885 / 140737488355328,
       plat_width = 400, plat_height = 20\<rparr>]
     100 (2589569785738035 / 1125899906842624) (4953959590107545 / 562949953421312) =
     (3124372241488281 / 281474976710656, 4953959590107545 / 562949953421312, False)"
    by (simp add: resolveCollision_def binary64_simps air_next air_feet0 air_feet1)
  have r: "rev levelStep =
     [] @ \<lparr>plat_id = ''high'', plat_x = 120, plat_y = 505, plat_width = 280, plat_height = 20\<rparr> #
     [\<lparr>plat_id = ''low'', plat_x = 0, plat_y = 510, plat_width = 110, plat_height = 20\<rparr>]"
    by (simp add: level_defs)
  note collision_lands_on_first_match [OF a] collision_lands_on_first_match [OF b]
    collision_lands_on_first_match [OF c] collision_lands_on_first_match [OF d]
    collision_lands_on_first_match [OF e]
  with a b c d d' e r show ?thesis by blast
qed

text \<open>
  The claim as written fails on \<open>levelStep\<close>, in binary64 as in exact arithmetic: the feet
  start at 500, above both tops (510 and 505), the player's extent from 100 to 130 overlaps
  both spans, the speed 15 is at most the thickness 20, and the tick lands on \<open>low\<close>, the
  first listed, which leaves the feet at 510, below the top of \<open>high\<close> at 505.
\<close>

theorem collision_soundness_counterexample:
  "map plat_x levelStep = [0, 120] \<and>
   map plat_width levelStep = [110, 280] \<and>
   map plat_y levelStep = [510, 505] \<and>
   map plat_height levelStep = [20, 20] \<and>
   binary64 (452 + 48) = 500 \<and>
   resolveCollision binary64 levelStep 100 452 15 = (462, 0, True) \<and>
   binary64 (462 + 48) = 510 \<and>
   min (player_vy (player (scenario levelStep 100 452 14.4)) + GRAVITY) MAX_FALL_SPEED = 15 \<and>
   player_x (integrate 16 {} (scenario levelStep 100 452 14.4)) = 100 \<and>
   player_y (integrate 16 {} (scenario levelStep 100 452 14.4)) = 462"
  by (simp add: tick_defs level_defs binary64_simps)

section \<open>A tick on an empty level\<close>

text \<open>
  C4. The tick is not total: on a Playing state with an empty level and revives left, a
  fall past the threshold raises a TypeError, since both the sorted candidates and
  \<open>state.level[0]\<close> are undefined. A session started on an empty level reaches that
  tick by itself: with no key pressed, the 46th frame raises.
\<close>

theorem tick_faults_on_empty_level:
  "gameStatus (scenario [] 100 790 14.4) = PLAYING \<and>
   level (scenario [] 100 790 14.4) = [] \<and>
   revives (scenario [] 100 790 14.4) = 3 \<and>
   updatePhysics 16 {} (scenario [] 100 790 14.4) = Inl TypeError \<and>
   runLoop (replicate 46 (1000, {})) (0, newGame []) = Inl TypeError"
proof -
  have tick: "updatePhysics 16 {} (scenario [] 100 790 14.4) = Inl TypeError"
    by (simp add: tick_defs)
  have run: "runLoop (replicate 46 (1000, {})) (0, newGame []) = Inl TypeError"
    by (simp add: eval_nat_numeral gameLoop_def deltaTime_def tick_defs)
  from tick run show ?thesis
    by (simp add: scenario_def newGame_def INITIAL_GAME_STATE_def)
qed

section \<open>Reverse trap\<close>

text \<open>
  C7. In every Playing state a Reverse trap sets the reversed-controls flag and puts the
  countdown at exactly 3000, whatever the countdown was before; a second Reverse while the
  flag is set leaves it at exactly 3000 again, not at the sum of the remaining and the full
  duration.
\<close>

theorem reverse_resets_countdown:
  assumes "gameStatus s = PLAYING"
  shows "controlsReversed (player (handleTrapTrigger r REVERSE s)) \<and>
         reverseTimer (player (handleTrapTrigger r REVERSE s)) = 3000 \<and>
         gameStatus (handleTrapTrigger r REVERSE s) = PLAYING \<and>
         reverseTimer (player (handleTrapTrigger r' REVERSE (handleTrapTrigger r REVERSE s))) = 3000"
  using assms by (simp add: handleTrapTrigger_def)

text \<open>
  A Playing state with 1200 left on the countdown: after another Reverse it is at 3000.
\<close>

theorem reverse_resets_countdown_witness:
  "gameStatus ((newGame [])
      \<lparr> player := (player (newGame [])) \<lparr> controlsReversed := True, reverseTimer := 1200 \<rparr> \<rparr>)
     = PLAYING \<and>
   controlsReversed (player (handleTrapTrigger 0 REVERSE ((newGame [])
      \<lparr> player := (player (newGame [])) \<lparr> controlsReversed := True, reverseTimer := 1200 \<rparr> \<rparr>))) \<and>
   reverseTimer (player (handleTrapTrigger 0 REVERSE ((newGame [])
      \<lparr> player := (player (newGame [])) \<lparr> controlsReversed := True, reverseTimer := 1200 \<rparr> \<rparr>)))
     = 3000 \<and>
   reverseTimer (player (handleTrapTrigger 1 REVERSE (handleTrapTrigger 0 REVERSE ((newGame [])
      \<lparr> player := (player (newGame [])) \<lparr> controlsReversed := True, reverseTimer := 1200 \<rparr> \<rparr>))))
     = 3000"
  using reverse_resets_countdown [of "(newGame [])
      \<lparr> player := (player (newGame [])) \<lparr> controlsReversed := True, reverseTimer := 1200 \<rparr> \<rparr>" 0 1]
  by (simp add: newGame_def INITIAL_GAME_STATE_def)

section \<open>Intents outside a running game\<close>

text \<open>
  C8. For every trap kind and every state whose status is not Playing, applying the trap
  leaves the whole game state unchanged.
\<close>

theorem trap_ignored_unless_playing:
  assumes "gameStatus s \<noteq> PLAYING"
  shows "handleTrapTrigger r t s = s"
  using assms by (simp add: handleTrapTrigger_def)

theorem trap_ignored_unless_playing_witness:
  "gameStatus INITIAL_GAME_STATE \<noteq> PLAYING \<and>
   handleTrapTrigger 0 BOMB INITIAL_GAME_STATE = INITIAL_GAME_STATE \<and>
   handleTrapTrigger 0 CRACK INITIAL_GAME_STATE = INITIAL_GAME_STATE \<and>
   handleTrapTrigger 0 REVERSE (INITIAL_GAME_STATE \<lparr> gameStatus := WON \<rparr>) =
     INITIAL_GAME_STATE \<lparr> gameStatus := WON \<rparr> \<and>
   handleTrapTrigger 0 REVERSE (INITIAL_GAME_STATE \<lparr> gameStatus := LOST \<rparr>) =
     INITIAL_GAME_STATE \<lparr> gameStatus := LOST \<rparr>"
  using trap_ignored_unless_playing [of INITIAL_GAME_STATE 0 BOMB]
    trap_ignored_unless_playing [of INITIAL_GAME_STATE 0 CRACK]
    trap_ignored_unless_playing [of "INITIAL_GAME_STATE \<lparr> gameStatus := WON \<rparr>" 0 REVERSE]
    trap_ignored_unless_playing [of "INITIAL_GAME_STATE \<lparr> gameStatus := LOST \<rparr>" 0 REVERSE]
  by (simp add: INITIAL_GAME_STATE_def)

section \<open>Sending before the channel is open\<close>

text \<open>
  C9. When there is no data channel, or its ready state is not open, \<open>send\<close> returns
  normally for every message, hands nothing to the channel (the channel and the texts sent
  on it are unchanged, and the message is not even serialised), and appends exactly one
  warning to the console.
\<close>

theorem send_dropped_while_not_open:
  assumes "\<forall>ch. dataChannel net = Some ch \<longrightarrow> readyState ch \<noteq> Open"
  shows "send stringify msg net =
     Inr (net \<lparr> console := console net @
        [Warn ''[UDP_NET] UDP Channel not ready, dropping packet:'' (msg_type msg)] \<rparr>)"
  using assms by (simp add: send_def split: option.splits)

theorem send_dropped_while_not_open_witness:
  "send (\<lambda>m. Inl TypeError) \<lparr>msg_type = STATE_UPDATE, payload = None, msg_role = None, target = None\<rparr>
      \<lparr>dataChannel = None, console = []\<rparr> =
     Inr \<lparr>dataChannel = None,
          console = [Warn ''[UDP_NET] UDP Channel not ready, dropping packet:'' STATE_UPDATE]\<rparr> \<and>
   send (\<lambda>m. Inr ''{}'') \<lparr>msg_type = PING, payload = None, msg_role = None, target = None\<rparr>
      \<lparr>dataChannel = Some \<lparr>readyState = Connecting, sent = []\<rparr>, console = []\<rparr> =
     Inr \<lparr>dataChannel = Some \<lparr>readyState = Connecting, sent = []\<rparr>,
          console = [Warn ''[UDP_NET] UDP Channel not ready, dropping packet:'' PING]\<rparr>"
  using send_dropped_while_not_open [of "\<lparr>dataChannel = None, console = []\<rparr>"
      "\<lambda>m. Inl TypeError"
      "\<lparr>msg_type = STATE_UPDATE, payload = None, msg_role = None, target = None\<rparr>"]
    send_dropped_while_not_open [of
      "\<lparr>dataChannel = Some \<lparr>readyState = Connecting, sent = []\<rparr>, console = []\<rparr>"
      "\<lambda>m. Inr ''{}''"
      "\<lparr>msg_type = PING, payload = None, msg_role = None, target = None\<rparr>"]
  by simp

section \<open>Level generation never fails\<close>

text \<open>
  C10 (amended). \<open>generateLevel\<close> always returns a list and never an error. It returns
  the fixed fallback list when the service call is rejected, when the response text is
  undefined or empty, when the text does not parse, and when the parsed value is not an
  array. When the text parses to an array, it returns one object per element, each with
  the id \<open>plat-<index>\<close>, without checking the elements.
\<close>

theorem generateLevel_never_fails:
  "(\<exists>platforms. generateLevel parse service = Inr platforms) \<and>
   (service = Inl e \<longrightarrow> generateLevel parse service = Inr fallbackLevel) \<and>
   (service = Inr None \<longrightarrow> generateLevel parse service = Inr fallbackLevel) \<and>
   (service = Inr (Some []) \<longrightarrow> generateLevel parse service = Inr fallbackLevel) \<and>
   (service = Inr (Some t) \<and> parse t = None \<longrightarrow>
      generateLevel parse service = Inr fallbackLevel) \<and>
   (service = Inr (Some t) \<and> parse t = Some v \<and> (\<forall>elems. v \<noteq> JArr elems) \<longrightarrow>
      generateLevel parse service = Inr fallbackLevel) \<and>
   (service = Inr (Some t) \<and> t \<noteq> [] \<and> parse t = Some (JArr elems) \<longrightarrow>
      generateLevel parse service = Inr (map2 withId elems [0..<length elems]))"
proof -
  have c1: "\<exists>platforms. generateLevel parse service = Inr platforms"
    by (simp add: generateLevel_def split: sum.splits)
  have c2: "service = Inl e \<longrightarrow> generateLevel parse service = Inr fallbackLevel"
    by (simp add: generateLevel_def tryGenerate_def)
  have c3: "service = Inr None \<longrightarrow> generateLevel parse service = Inr fallbackLevel"
    by (simp add: generateLevel_def tryGenerate_def)
  have c4: "service = Inr (Some []) \<longrightarrow> generateLevel parse service = Inr fallbackLevel"
    by (simp add: generateLevel_def tryGenerate_def)
  have c5: "service = Inr (Some t) \<and> parse t = None \<longrightarrow>
      generateLevel parse service = Inr fallbackLevel"
    by (simp add: generateLevel_def tryGenerate_def)
  have c6: "service = Inr (Some t) \<and> parse t = Some v \<and> (\<forall>elems. v \<noteq> JArr elems) \<longrightarrow>
      generateLevel parse service = Inr fallbackLevel"
    by (cases v) (simp_all add: generateLevel_def tryGenerate_def)
  have c7: "service = Inr (Some t) \<and> t \<noteq> [] \<and> parse t = Some (JArr elems) \<longrightarrow>
      generateLevel parse service = Inr (map2 withId elems [0..<length elems])"
    by (simp add: generateLevel_def tryGenerate_def)
  show ?thesis
    by (rule conjI [OF c1 conjI [OF c2 conjI [OF c3 conjI [OF c4 conjI [OF c5 conjI [OF c6 c7]]]]]])
qed

theorem generateLevel_never_fails_witness:
  "generateLevel Map.empty (Inl ServiceError) = Inr fallbackLevel \<and>
   generateLevel Map.empty (Inr None) = Inr fallbackLevel \<and>
   generateLevel Map.empty (Inr (Some [])) = Inr fallbackLevel \<and>
   generateLevel Map.empty (Inr (Some ''not json'')) = Inr fallbackLevel \<and>
   generateLevel [''{}'' \<mapsto> JObj []] (Inr (Some ''{}'')) = Inr fallbackLevel \<and>
   generateLevel [''[{},7]'' \<mapsto> JArr [JObj [], JNum 7]] (Inr (Some ''[{},7]'')) =
     Inr [[(''id'', JStr ''plat-0'')], [(''id'', JStr ''plat-1'')]]"
  using generateLevel_never_fails [of Map.empty "Inl ServiceError" ServiceError]
    generateLevel_never_fails [of Map.empty "Inr None"]
    generateLevel_never_fails [of Map.empty "Inr (Some [])"]
    generateLevel_never_fails [of Map.empty "Inr (Some ''not json'')" _ "''not json''"]
    generateLevel_never_fails [of "[''{}'' \<mapsto> JObj []]" "Inr (Some ''{}'')" _ "''{}''" "JObj []"]
    generateLevel_never_fails [of "[''[{},7]'' \<mapsto> JArr [JObj [], JNum 7]]"
       "Inr (Some ''[{},7]'')" _ "''[{},7]''" _ "[JObj [], JNum 7]"]
  by (simp add: withId_def)

text \<open>
  The claim as written fails for an empty array, which yields an empty level, and for an
  array of malformed elements, which yields platforms without coordinates; neither is the
  fallback list of 14 platforms.
\<close>

theorem generateLevel_counterexample:
  "generateLevel [''[]'' \<mapsto> JArr []] (Inr (Some ''[]'')) = Inr [] \<and>
   generateLevel [''[null]'' \<mapsto> JArr [JNull]] (Inr (Some ''[null]'')) =
     Inr [[(''id'', JStr ''plat-0'')]] \<and>
   length fallbackLevel = 14"
  by (simp add: generateLevel_def tryGenerate_def withId_def fallbackLevel_def)

end
